theory Spec2Isabelle
  imports Complex_Main
begin

section \<open>Session storage helpers (frontend/src/utils/sessionStorage.ts)\<close>

text \<open>
  A JavaScript number is a finite value, one of the two infinities, or NaN. The finite
  values are modelled as reals (every finite double is one).
\<close>

datatype jsnumber = Finite real | PosInfinity | NegInfinity | NaN

fun isFinite :: "jsnumber \<Rightarrow> bool" where
  "isFinite (Finite _) = True"
| "isFinite _ = False"

text \<open>The comparison \<^verbatim>\<open>parsed > 0\<close>: false for NaN and for minus infinity.\<close>

fun gtZero :: "jsnumber \<Rightarrow> bool" where
  "gtZero (Finite x) = (0 < x)"
| "gtZero PosInfinity = True"
| "gtZero _ = False"

text \<open>
  \<^verbatim>\<open>window.sessionStorage\<close> is a keyed store of strings; \<^verbatim>\<open>getItem\<close> of an
  absent key is \<^verbatim>\<open>null\<close>. The global \<^verbatim>\<open>window\<close> may be undefined (\<open>None\<close>).
\<close>

type_synonym storage = "string \<rightharpoonup> string"
type_synonym window = "storage option"

text \<open>
  The built-ins \<^verbatim>\<open>Number(stored)\<close> and \<^verbatim>\<open>String(value)\<close> belong to the language, not
  to the repository: both functions below take them as the parameters \<open>toNumber\<close> and
  \<open>toString\<close>.
\<close>

definition getSessionNumber ::
  "(string \<Rightarrow> jsnumber) \<Rightarrow> window \<Rightarrow> string \<Rightarrow> jsnumber \<Rightarrow> jsnumber" where
  "getSessionNumber toNumber w key fallback =
     (case w of
        None \<Rightarrow> fallback
      | Some st \<Rightarrow>
          (case st key of
             None \<Rightarrow> fallback
           | Some stored \<Rightarrow>
               if stored = [] then fallback
               else (let parsed = toNumber stored
                     in if isFinite parsed \<and> gtZero parsed then parsed else fallback)))"


text \<open>
  A printer and a parser for the natural numbers in decimal. On the natural numbers
  below \<open>2^53\<close> (the values a page size takes) \<open>stringOfNumber\<close> prints what
  \<^verbatim>\<open>String\<close> prints, and on the empty string, the two infinities and plain decimal
  numerals of such numbers \<open>numberOfString\<close> reads what \<^verbatim>\<open>Number\<close> reads. They are
  not the built-ins elsewhere: other numbers are printed as \<^verbatim>\<open>NaN\<close> and every other
  string is read as NaN. They serve only as an instance of the two parameters at which
  the storage property is evaluated.
\<close>

definition digitChar :: "nat \<Rightarrow> char" where
  "digitChar d = char_of (48 + d)"

fun decimal :: "nat \<Rightarrow> string" where
  "decimal n = (if n < 10 then [digitChar n] else decimal (n div 10) @ [digitChar (n mod 10)])"

declare decimal.simps [simp del]

definition isDigit :: "char \<Rightarrow> bool" where
  "isDigit c = (48 \<le> (of_char c :: nat) \<and> (of_char c :: nat) \<le> 57)"

fun digitsValue :: "nat \<Rightarrow> string \<Rightarrow> nat option" where
  "digitsValue acc [] = Some acc"
| "digitsValue acc (c # cs) =
     (if isDigit c then digitsValue (10 * acc + ((of_char c :: nat) - 48)) cs else None)"

definition stringOfNumber :: "jsnumber \<Rightarrow> string" where
  "stringOfNumber v =
     (case v of
        Finite x \<Rightarrow> (if 0 \<le> x \<and> x = of_int (floor x) then decimal (nat (floor x)) else ''NaN'')
      | PosInfinity \<Rightarrow> ''Infinity''
      | NegInfinity \<Rightarrow> ''-Infinity''
      | NaN \<Rightarrow> ''NaN'')"

definition numberOfString :: "string \<Rightarrow> jsnumber" where
  "numberOfString s =
     (if s = [] then Finite 0
      else if s = ''Infinity'' then PosInfinity
      else if s = ''-Infinity'' then NegInfinity
      else (case digitsValue 0 s of Some n \<Rightarrow> Finite (of_nat n) | None \<Rightarrow> NaN))"

section \<open>The server list provider (the polling controller of ServerProvider)\<close>

subsection \<open>Configuration\<close>

definition startup_maxAttempts :: nat where
  "startup_maxAttempts = 60"

definition startup_pollingInterval :: nat where
  "startup_pollingInterval = 3000"

definition normal_pollingInterval :: nat where
  "normal_pollingInterval = 10000"

text \<open>\<^verbatim>\<open>process.env.NODE_ENV === 'development' ? 5000 : 3000\<close>\<close>

definition MIN_REFRESH_INTERVAL :: "string \<Rightarrow> int" where
  "MIN_REFRESH_INTERVAL nodeEnv = (if nodeEnv = ''development'' then 5000 else 3000)"

subsection \<open>Data\<close>

record paginationInfo =
  page :: int
  limit :: int
  total :: int
  totalPages :: int
  hasNextPage :: bool
  hasPrevPage :: bool

text \<open>
  What an \<^verbatim>\<open>apiGet\<close> resolves to, as far as the provider inspects it: an array, a
  falsy value, or any other value, of which it reads whether \<^verbatim>\<open>success\<close> is truthy,
  whether \<^verbatim>\<open>data\<close> is an array (\<open>Some\<close> of its elements) and the \<^verbatim>\<open>pagination\<close>
  field when truthy. The element type \<open>'r\<close> is the \<^verbatim>\<open>Server\<close> type of \<^verbatim>\<open>@/types\<close>.
\<close>

datatype 'r response =
    Envelope bool "'r list option" "paginationInfo option"
  | BareArray "'r list"
  | Falsy

text \<open>A thrown value: whether it is a \<^verbatim>\<open>TypeError\<close>, and its message.\<close>

record jserror =
  isTypeError :: bool
  message :: string

text \<open>The two functions a timer or an effect can call to start a reconciliation.\<close>

datatype callback = FetchInitialData | FetchServers

record timer =
  handler :: callback
  period :: nat

text \<open>
  A reconciliation that has been started: the pair of \<^verbatim>\<open>apiGet\<close> calls of one
  \<^verbatim>\<open>Promise.all\<close>, with the query parameters it was built from. \<open>generation\<close> is
  the value \<open>refreshKey\<close> had when the calls were made; the source keeps no such tag,
  the model records it so that properties about superseded requests can be stated.
\<close>

record request =
  callback :: callback
  generation :: nat
  reqPage :: int
  reqLimit :: jsnumber

text \<open>
  The component's \<^verbatim>\<open>useState\<close> cells and \<^verbatim>\<open>useRef\<close> cells, the session signal
  \<^verbatim>\<open>auth.isAuthenticated\<close> it reads from \<^verbatim>\<open>useAuth\<close>, and the list of the
  reconciliations started so far (the provider's effect on the network).
\<close>

record 'r state =
  servers :: "'r list"
  allServers :: "'r list"
  error :: "string option"
  refreshKey :: nat
  isInitialLoading :: bool
  fetchAttempts :: nat
  pagination :: "paginationInfo option"
  currentPage :: int
  serversPerPage :: jsnumber
  intervalRef :: "timer option"
  attemptsRef :: nat
  lastFetchTimeRef :: int
  isAuthenticated :: bool
  issued :: "request list"

definition initialState :: "(string \<Rightarrow> jsnumber) \<Rightarrow> window \<Rightarrow> bool \<Rightarrow> 'r state" where
  "initialState toNumber w auth =
     \<lparr> servers = [], allServers = [], error = None, refreshKey = 0,
       isInitialLoading = True, fetchAttempts = 0, pagination = None, currentPage = 1,
       serversPerPage = getSessionNumber toNumber w ''servers.serversPerPage'' (Finite 5),
       intervalRef = None, attemptsRef = 0, lastFetchTimeRef = 0,
       isAuthenticated = auth, issued = [] \<rparr>"

subsection \<open>String search (\<^verbatim>\<open>String.prototype.includes\<close>)\<close>

fun startsWith :: "string \<Rightarrow> string \<Rightarrow> bool" where
  "startsWith _ [] = True"
| "startsWith [] (p # ps) = False"
| "startsWith (c # cs) (p # ps) = (c = p \<and> startsWith cs ps)"

fun str_includes :: "string \<Rightarrow> string \<Rightarrow> bool" where
  "str_includes [] pat = startsWith [] pat"
| "str_includes (c # cs) pat = (startsWith (c # cs) pat \<or> str_includes cs pat)"

subsection \<open>Timers and requests\<close>

definition clearTimer :: "'r state \<Rightarrow> 'r state" where
  "clearTimer s = (if intervalRef s \<noteq> None then s\<lparr>intervalRef := None\<rparr> else s)"

text \<open>Both fetch functions start with the same pair of \<^verbatim>\<open>apiGet\<close> calls.\<close>

definition issue :: "callback \<Rightarrow> 'r state \<Rightarrow> 'r state" where
  "issue cb s =
     s\<lparr>issued := issued s @
        [\<lparr> callback = cb, generation = refreshKey s,
           reqPage = currentPage s, reqLimit = serversPerPage s \<rparr>]\<rparr>"

text \<open>
  \<^verbatim>\<open>Promise.all\<close> of the paginated and the full request: it resolves when both do and
  rejects as soon as one does, with that request's error. When both are rejected the
  error is that of the request rejected first in time, which the code does not control:
  the order is an input of the model.
\<close>

datatype settleOrder = PaginatedFirst | FullFirst

fun promiseAll ::
  "settleOrder \<Rightarrow> jserror + 'a \<Rightarrow> jserror + 'b \<Rightarrow> jserror + ('a \<times> 'b)" where
  "promiseAll ord (Inr a) (Inr b) = Inr (a, b)"
| "promiseAll ord (Inl e) (Inr b) = Inl e"
| "promiseAll ord (Inr a) (Inl e) = Inl e"
| "promiseAll PaginatedFirst (Inl e1) (Inl e2) = Inl e1"
| "promiseAll FullFirst (Inl e1) (Inl e2) = Inl e2"

subsection \<open>Writing a resolved response to the component state\<close>

fun handlePaginated :: "'r response \<Rightarrow> 'r state \<Rightarrow> 'r state" where
  "handlePaginated (Envelope True (Some xs) pg) s = s\<lparr>servers := xs, pagination := pg\<rparr>"
| "handlePaginated (BareArray xs) s = s\<lparr>servers := xs, pagination := None\<rparr>"
| "handlePaginated _ s = s\<lparr>servers := [], pagination := None\<rparr>"

fun handleAll :: "'r response \<Rightarrow> 'r state \<Rightarrow> 'r state" where
  "handleAll (Envelope True (Some xs) pg) s = s\<lparr>allServers := xs\<rparr>"
| "handleAll (BareArray xs) s = s\<lparr>allServers := xs\<rparr>"
| "handleAll _ s = s\<lparr>allServers := []\<rparr>"

subsection \<open>Normal polling\<close>

text \<open>
  \<^verbatim>\<open>startNormalPolling(options?)\<close>: the argument is \<open>None\<close> for a call without options
  and \<open>Some b\<close> for \<^verbatim>\<open>{ immediate: b }\<close>.
\<close>

definition startNormalPolling :: "bool option \<Rightarrow> 'r state \<Rightarrow> 'r state" where
  "startNormalPolling options s =
     (let immediate = (case options of None \<Rightarrow> True | Some b \<Rightarrow> b);
          s1 = clearTimer s;
          s2 = (if immediate then issue FetchServers s1 else s1)
      in s2\<lparr>intervalRef := Some \<lparr> handler = FetchServers, period = normal_pollingInterval \<rparr>\<rparr>)"

text \<open>
  The body of \<^verbatim>\<open>fetchServers\<close> after the \<^verbatim>\<open>await\<close>: \<open>online\<close> is
  \<^verbatim>\<open>navigator.onLine\<close> and \<open>now\<close> is \<^verbatim>\<open>Date.now()\<close> at that moment, and the two
  outcomes are those of the paginated and of the full request. The translation function
  \<^verbatim>\<open>t\<close> is left out: the error cell holds the message key.
\<close>

definition fetchServers_settle ::
  "bool \<Rightarrow> int \<Rightarrow> settleOrder \<Rightarrow> jserror + 'r response \<Rightarrow> jserror + 'r response \<Rightarrow>
   'r state \<Rightarrow> 'r state" where
  "fetchServers_settle online now ord paginated full s =
     (case promiseAll ord paginated full of
        Inr (paginatedData, allData) \<Rightarrow>
          (handleAll allData (handlePaginated paginatedData (s\<lparr>lastFetchTimeRef := now\<rparr>)))
            \<lparr>error := None\<rparr>
      | Inl err \<Rightarrow>
          if \<not> online then s\<lparr>error := Some ''errors.network''\<rparr>
          else if isTypeError err \<and>
                  (str_includes (message err) ''NetworkError'' \<or>
                   str_includes (message err) ''Failed to fetch'')
          then s\<lparr>error := Some ''errors.serverConnection''\<rparr>
          else s\<lparr>error := Some ''errors.serverFetch''\<rparr>)"

subsection \<open>Effects\<close>

text \<open>The effect that watches \<^verbatim>\<open>auth.isAuthenticated\<close>.\<close>

definition authEffect :: "'r state \<Rightarrow> 'r state" where
  "authEffect s =
     (if isAuthenticated s then s\<lparr>refreshKey := refreshKey s + 1\<rparr>
      else (clearTimer s)\<lparr>servers := [], allServers := [], isInitialLoading := False,
                           error := None\<rparr>)"

text \<open>The body of \<^verbatim>\<open>fetchInitialData\<close> after the \<^verbatim>\<open>await\<close>.\<close>

definition fetchInitialData_settle ::
  "bool \<Rightarrow> int \<Rightarrow> settleOrder \<Rightarrow> jserror + 'r response \<Rightarrow> jserror + 'r response \<Rightarrow>
   'r state \<Rightarrow> 'r state" where
  "fetchInitialData_settle online now ord paginated full s =
     (case promiseAll ord paginated full of
        Inr (paginatedData, allData) \<Rightarrow>
          startNormalPolling (Some False)
            ((handleAll allData (handlePaginated paginatedData (s\<lparr>lastFetchTimeRef := now\<rparr>)))
               \<lparr>isInitialLoading := False\<rparr>)
      | Inl err \<Rightarrow>
          (let s1 = s\<lparr>attemptsRef := attemptsRef s + 1\<rparr>;
               s2 = s1\<lparr>fetchAttempts := attemptsRef s1\<rparr>;
               s3 = (if \<not> online then s2\<lparr>error := Some ''errors.network''\<rparr>
                     else s2\<lparr>error := Some ''errors.initialStartup''\<rparr>)
           in if startup_maxAttempts \<le> attemptsRef s3
              then startNormalPolling None (clearTimer (s3\<lparr>isInitialLoading := False\<rparr>))
              else s3))"

text \<open>The polling effect: its body, and its cleanup, which is \<open>clearTimer\<close>.\<close>

definition pollingEffect :: "'r state \<Rightarrow> 'r state" where
  "pollingEffect s =
     (if \<not> isAuthenticated s then s
      else
        (let s1 = (if 0 < refreshKey s then s\<lparr>attemptsRef := 0, fetchAttempts := 0\<rparr> else s)
         in if isInitialLoading s1
            then (issue FetchInitialData (clearTimer s1))
                   \<lparr>intervalRef :=
                      Some \<lparr> handler = FetchInitialData, period = startup_pollingInterval \<rparr>\<rparr>
            else startNormalPolling None s1))"

subsection \<open>The refresh interface\<close>

definition triggerRefresh :: "'r state \<Rightarrow> 'r state" where
  "triggerRefresh s =
     (let s1 = clearTimer s;
          s2 = (if isInitialLoading s1
                then s1\<lparr>isInitialLoading := True, attemptsRef := 0, fetchAttempts := 0\<rparr>
                else s1)
      in s2\<lparr>refreshKey := refreshKey s2 + 1\<rparr>)"

definition refreshIfNeeded :: "string \<Rightarrow> int \<Rightarrow> 'r state \<Rightarrow> 'r state" where
  "refreshIfNeeded nodeEnv now s =
     (let timeSinceLastFetch = now - lastFetchTimeRef s
      in if MIN_REFRESH_INTERVAL nodeEnv \<le> timeSinceLastFetch then triggerRefresh s else s)"

subsection \<open>Rendering: when the polling effect runs again\<close>

text \<open>
  React runs an effect again after a render in which one of its dependencies changed,
  its cleanup first. The dependencies of the polling effect that can change are
  \<open>refreshKey\<close>, \<open>isInitialLoading\<close>, \<open>currentPage\<close> and \<open>serversPerPage\<close>
  (\<^verbatim>\<open>startNormalPolling\<close> changes with the last two; \<^verbatim>\<open>t\<close> is fixed).
  \<open>commit before after\<close> is the state once the render that follows a handler has
  been committed: \<open>before\<close> is the state the handler started from and \<open>after\<close> the
  state its updates produce.
\<close>

definition pollingDeps :: "'r state \<Rightarrow> nat \<times> bool \<times> int \<times> jsnumber" where
  "pollingDeps s = (refreshKey s, isInitialLoading s, currentPage s, serversPerPage s)"

definition commit :: "'r state \<Rightarrow> 'r state \<Rightarrow> 'r state" where
  "commit before after =
     (if pollingDeps after = pollingDeps before then after
      else pollingEffect (clearTimer after))"

subsection \<open>Events\<close>

text \<open>
  Mounting the provider: both effects run on the first render's state, the
  authentication effect first; its state updates show in the next render.
\<close>

definition mount :: "(string \<Rightarrow> jsnumber) \<Rightarrow> window \<Rightarrow> bool \<Rightarrow> 'r state" where
  "mount toNumber w auth =
     (let s0 = initialState toNumber w auth
      in commit s0 (authEffect (pollingEffect s0)))"

text \<open>The session signal changes: only the authentication effect depends on it.\<close>

definition onAuthChange :: "bool \<Rightarrow> 'r state \<Rightarrow> 'r state" where
  "onAuthChange auth s =
     (let s0 = s\<lparr>isAuthenticated := auth\<rparr>
      in commit s0 (authEffect s0))"

text \<open>The timer held by \<open>intervalRef\<close> fires: its handler starts a reconciliation.\<close>

definition onTick :: "'r state \<Rightarrow> 'r state" where
  "onTick s = (case intervalRef s of None \<Rightarrow> s | Some tm \<Rightarrow> issue (handler tm) s)"

text \<open>The two requests of a started reconciliation settle.\<close>

definition onSettle ::
  "request \<Rightarrow> bool \<Rightarrow> int \<Rightarrow> settleOrder \<Rightarrow> jserror + 'r response \<Rightarrow>
   jserror + 'r response \<Rightarrow> 'r state \<Rightarrow> 'r state" where
  "onSettle req online now ord paginated full s =
     commit s
       (case callback req of
          FetchInitialData \<Rightarrow> fetchInitialData_settle online now ord paginated full s
        | FetchServers \<Rightarrow> fetchServers_settle online now ord paginated full s)"

definition onTriggerRefresh :: "'r state \<Rightarrow> 'r state" where
  "onTriggerRefresh s = commit s (triggerRefresh s)"

definition onRefreshIfNeeded :: "string \<Rightarrow> int \<Rightarrow> 'r state \<Rightarrow> 'r state" where
  "onRefreshIfNeeded nodeEnv now s = commit s (refreshIfNeeded nodeEnv now s)"

subsection \<open>The phase, as the specification names it\<close>

text \<open>
  The phase is read off the armed timer: no timer is \<open>Stopped\<close>, the startup timer is
  \<open>Startup\<close> with the attempts counted so far, the normal timer is \<open>Normal\<close>.
\<close>

datatype phase = Stopped | Startup nat | Normal

definition phaseOf :: "'r state \<Rightarrow> phase" where
  "phaseOf s =
     (case intervalRef s of
        None \<Rightarrow> Stopped
      | Some tm \<Rightarrow>
          (case handler tm of
             FetchInitialData \<Rightarrow> Startup (attemptsRef s)
           | FetchServers \<Rightarrow> Normal))"

subsection \<open>Response shapes the provider does not recognise\<close>


subsection \<open>Sample runs\<close>

text \<open>
  Servers are named by strings. \<open>bootState\<close> is the provider mounted for a signed-in
  user with no window: the polling effect has run twice (for \<open>refreshKey\<close> 0 and 1),
  so two startup reconciliations are in flight; \<open>bootRequest\<close> is the second.
\<close>

definition bootState :: "string state" where
  "bootState = mount numberOfString None True"

definition bootRequest :: request where
  "bootRequest =
     \<lparr> callback = FetchInitialData, generation = 1, reqPage = 1, reqLimit = Finite 5 \<rparr>"

text \<open>\<open>firstRequest\<close> is the startup reconciliation started before it, on mounting.\<close>

definition firstRequest :: request where
  "firstRequest =
     \<lparr> callback = FetchInitialData, generation = 0, reqPage = 1, reqLimit = Finite 5 \<rparr>"

definition boom :: jserror where
  "boom = \<lparr> isTypeError = False, message = ''boom'' \<rparr>"

definition samplePagination :: paginationInfo where
  "samplePagination =
     \<lparr> page = 1, limit = 5, total = 2, totalPages = 1,
       hasNextPage = False, hasPrevPage = False \<rparr>"

text \<open>\<open>normalState\<close>: the boot request resolved at time 1000 with two servers.\<close>

definition normalState :: "string state" where
  "normalState =
     onSettle bootRequest True 1000 PaginatedFirst
       (Inr (Envelope True (Some [''alpha'', ''beta'']) (Some samplePagination)))
       (Inr (BareArray [''alpha'', ''beta''])) bootState"

definition fetchFailed :: jserror where
  "fetchFailed = \<lparr> isTypeError = True, message = ''Failed to fetch'' \<rparr>"


section \<open>Properties of the session storage helpers\<close>

lemma digitsValue_append:
  "digitsValue acc (xs @ [c]) =
     (case digitsValue acc xs of
        None \<Rightarrow> None
      | Some m \<Rightarrow> if isDigit c then Some (10 * m + ((of_char c :: nat) - 48)) else None)"
  by (induction xs arbitrary: acc) auto

lemma digitChar_digit:
  "d < 10 \<Longrightarrow> isDigit (digitChar d) \<and> (of_char (digitChar d) :: nat) - 48 = d"
  by (simp add: isDigit_def digitChar_def)

text \<open>The decimal parser reads back what the decimal printer wrote.\<close>

lemma digitsValue_decimal: "digitsValue 0 (decimal n) = Some n"
proof (induction n rule: decimal.induct)
  case (1 n)
  show ?case
  proof (cases "n < 10")
    case True
    then show ?thesis
      using digitChar_digit [of n] by (subst decimal.simps) simp
  next
    case False
    then have ih: "digitsValue 0 (decimal (n div 10)) = Some (n div 10)"
      using 1 by simp
    have d: "n mod 10 < 10" by simp
    show ?thesis
      using False ih digitChar_digit [OF d]
      by (subst decimal.simps) (simp add: digitsValue_append)
  qed
qed

lemma decimal_not_special:
  "decimal n \<noteq> ''Infinity''" "decimal n \<noteq> ''-Infinity''" "decimal n \<noteq> []"
proof -
  have a: "digitsValue 0 ''Infinity'' = None" "digitsValue 0 ''-Infinity'' = None"
    by (simp_all add: isDigit_def)
  show "decimal n \<noteq> ''Infinity''" "decimal n \<noteq> ''-Infinity''"
    using digitsValue_decimal [of n] a by auto
  show "decimal n \<noteq> []"
    by (subst decimal.simps) simp
qed

text \<open>
  On every natural number the printer and the parser meet the two conditions the
  round trip needs of \<^verbatim>\<open>String\<close> and \<^verbatim>\<open>Number\<close>.
\<close>

lemma natural_roundtrip:
  "stringOfNumber (Finite (real n)) \<noteq> []
   \<and> numberOfString (stringOfNumber (Finite (real n))) = Finite (real n)"
  by (simp add: stringOfNumber_def numberOfString_def decimal_not_special digitsValue_decimal)








section \<open>Properties of the polling controller\<close>

subsection \<open>Auxiliary facts\<close>

lemmas ctl_defs = mount_def initialState_def getSessionNumber_def commit_def pollingDeps_def
  pollingEffect_def authEffect_def clearTimer_def issue_def startNormalPolling_def
  fetchInitialData_settle_def fetchServers_settle_def onSettle_def onTriggerRefresh_def
  triggerRefresh_def onRefreshIfNeeded_def refreshIfNeeded_def onAuthChange_def
  startup_maxAttempts_def startup_pollingInterval_def normal_pollingInterval_def
  MIN_REFRESH_INTERVAL_def phaseOf_def Let_def

lemma bootState_eq:
  "bootState =
     \<lparr> servers = [], allServers = [], error = None, refreshKey = 1,
       isInitialLoading = True, fetchAttempts = 0, pagination = None, currentPage = 1,
       serversPerPage = Finite 5,
       intervalRef = Some \<lparr> handler = FetchInitialData, period = 3000 \<rparr>,
       attemptsRef = 0, lastFetchTimeRef = 0, isAuthenticated = True,
       issued = [\<lparr> callback = FetchInitialData, generation = 0, reqPage = 1,
                   reqLimit = Finite 5 \<rparr>,
                 bootRequest] \<rparr>"
  by (simp add: bootState_def bootRequest_def ctl_defs)

lemma normalState_eq:
  "normalState =
     \<lparr> servers = [''alpha'', ''beta''], allServers = [''alpha'', ''beta''], error = None,
       refreshKey = 1, isInitialLoading = False, fetchAttempts = 0,
       pagination = Some samplePagination, currentPage = 1, serversPerPage = Finite 5,
       intervalRef = Some \<lparr> handler = FetchServers, period = 10000 \<rparr>,
       attemptsRef = 0, lastFetchTimeRef = 1000, isAuthenticated = True,
       issued = [\<lparr> callback = FetchInitialData, generation = 0, reqPage = 1,
                   reqLimit = Finite 5 \<rparr>,
                 bootRequest,
                 \<lparr> callback = FetchServers, generation = 1, reqPage = 1,
                   reqLimit = Finite 5 \<rparr>] \<rparr>"
  by (simp add: normalState_def bootState_eq) (simp add: bootRequest_def ctl_defs)


text \<open>The polling effect never touches the data cells, the error or the fetch time.\<close>

lemma sink_commit:
  "servers (commit s s') = servers s'"
  "allServers (commit s s') = allServers s'"
  "pagination (commit s s') = pagination s'"
  "error (commit s s') = error s'"
  "lastFetchTimeRef (commit s s') = lastFetchTimeRef s'"
  by (simp_all add: commit_def pollingEffect_def startNormalPolling_def issue_def
        clearTimer_def Let_def)

lemma refreshKey_commit: "refreshKey (commit s s') = refreshKey s'"
  by (simp add: commit_def pollingEffect_def startNormalPolling_def issue_def
        clearTimer_def Let_def)

lemma handlePaginated_frame:
  "allServers (handlePaginated p s) = allServers s"
  "error (handlePaginated p s) = error s"
  "refreshKey (handlePaginated p s) = refreshKey s"
  "isInitialLoading (handlePaginated p s) = isInitialLoading s"
  "fetchAttempts (handlePaginated p s) = fetchAttempts s"
  "currentPage (handlePaginated p s) = currentPage s"
  "serversPerPage (handlePaginated p s) = serversPerPage s"
  "intervalRef (handlePaginated p s) = intervalRef s"
  "attemptsRef (handlePaginated p s) = attemptsRef s"
  "lastFetchTimeRef (handlePaginated p s) = lastFetchTimeRef s"
  "isAuthenticated (handlePaginated p s) = isAuthenticated s"
  "issued (handlePaginated p s) = issued s"
  by (induction p s rule: handlePaginated.induct; simp)+

lemma handleAll_frame:
  "servers (handleAll a s) = servers s"
  "pagination (handleAll a s) = pagination s"
  "error (handleAll a s) = error s"
  "refreshKey (handleAll a s) = refreshKey s"
  "isInitialLoading (handleAll a s) = isInitialLoading s"
  "fetchAttempts (handleAll a s) = fetchAttempts s"
  "currentPage (handleAll a s) = currentPage s"
  "serversPerPage (handleAll a s) = serversPerPage s"
  "intervalRef (handleAll a s) = intervalRef s"
  "attemptsRef (handleAll a s) = attemptsRef s"
  "lastFetchTimeRef (handleAll a s) = lastFetchTimeRef s"
  "isAuthenticated (handleAll a s) = isAuthenticated s"
  "issued (handleAll a s) = issued s"
  by (induction a s rule: handleAll.induct; simp)+

lemmas frame = handlePaginated_frame handleAll_frame


lemma triggerRefresh_frame:
  "lastFetchTimeRef (triggerRefresh s) = lastFetchTimeRef s"
  "refreshKey (triggerRefresh s) = refreshKey s + 1"
  by (simp_all add: triggerRefresh_def clearTimer_def Let_def)

lemma lastFetch_onSettle_resolved:
  "lastFetchTimeRef (onSettle req online t ord (Inr p) (Inr a) s) = t"
  by (cases "callback req")
     (simp_all add: onSettle_def sink_commit fetchInitialData_settle_def
        fetchServers_settle_def startNormalPolling_def issue_def clearTimer_def Let_def frame)

lemma refreshIfNeeded_noop:
  "now - lastFetchTimeRef s < MIN_REFRESH_INTERVAL nodeEnv \<Longrightarrow>
     onRefreshIfNeeded nodeEnv now s = s"
  by (simp add: onRefreshIfNeeded_def refreshIfNeeded_def commit_def)

subsection \<open>A reconciliation of which one request fails\<close>

text \<open>
  C1, as the claim states it, fails: when the paginated request resolves with a server
  list and the full request is rejected (or the other way round), the list that did
  arrive is not written; \<open>servers\<close> and \<open>allServers\<close> stay empty.
\<close>

theorem partial_success_not_written_counterexample:
  "servers (onSettle bootRequest True 1000 PaginatedFirst
              (Inr (Envelope True (Some [''alpha'']) None)) (Inl fetchFailed) bootState) = []
   \<and> servers (onSettle bootRequest True 1000 PaginatedFirst
              (Inr (Envelope True (Some [''alpha'']) None)) (Inl fetchFailed) bootState)
       \<noteq> [''alpha'']
   \<and> allServers (onSettle bootRequest True 1000 PaginatedFirst
              (Inl fetchFailed) (Inr (BareArray [''alpha''])) bootState) = []
   \<and> allServers (onSettle bootRequest True 1000 PaginatedFirst
              (Inl fetchFailed) (Inr (BareArray [''alpha''])) bootState)
       \<noteq> [''alpha'']"
  by (simp add: bootState_eq) (simp add: bootRequest_def ctl_defs)

text \<open>
  C1, amended. When exactly one of the two requests of a reconciliation is rejected, the
  reconciliation settles exactly as if both had been rejected with that error (so it
  counts as a failure: in the startup loop the attempt counter goes up by one), and
  nothing of the request that resolved is written: \<open>servers\<close>, \<open>pagination\<close> and
  \<open>allServers\<close> keep their previous contents.
\<close>

theorem partial_failure_writes_nothing:
  "onSettle req online now ord (Inr p) (Inl e) s
     = onSettle req online now ord' (Inl e) (Inl e) s
   \<and> onSettle req online now ord (Inl e) (Inr a) s
     = onSettle req online now ord' (Inl e) (Inl e) s
   \<and> attemptsRef (fetchInitialData_settle online now ord (Inr p) (Inl e) s) = attemptsRef s + 1
   \<and> attemptsRef (fetchInitialData_settle online now ord (Inl e) (Inr a) s) = attemptsRef s + 1
   \<and> servers (onSettle req online now ord (Inr p) (Inl e) s) = servers s
   \<and> pagination (onSettle req online now ord (Inr p) (Inl e) s) = pagination s
   \<and> allServers (onSettle req online now ord (Inr p) (Inl e) s) = allServers s
   \<and> servers (onSettle req online now ord (Inl e) (Inr a) s) = servers s
   \<and> pagination (onSettle req online now ord (Inl e) (Inr a) s) = pagination s
   \<and> allServers (onSettle req online now ord (Inl e) (Inr a) s) = allServers s"
  by (cases "callback req"; cases ord')
     (simp_all add: onSettle_def sink_commit fetchInitialData_settle_def
        fetchServers_settle_def startNormalPolling_def issue_def clearTimer_def Let_def)

subsection \<open>Manual refresh\<close>

text \<open>
  C2, as the claim states it, fails: in the normal phase a call of \<open>triggerRefresh\<close>
  does not go back to a startup episode; the provider stays in the normal phase.
\<close>

theorem triggerRefresh_in_normal_counterexample:
  "phaseOf normalState = Normal
   \<and> phaseOf (onTriggerRefresh normalState) = Normal
   \<and> phaseOf (onTriggerRefresh normalState) \<noteq> Startup 0
   \<and> isInitialLoading (onTriggerRefresh normalState) = False"
  by (simp add: normalState_eq) (simp add: ctl_defs)

text \<open>
  C2, amended. For a signed-in user and every current phase, \<open>triggerRefresh\<close> cancels
  the pending timer and increments \<open>refreshKey\<close> (the generation); once the polling
  effect has run again the attempt count is 0, and the provider has restarted the phase
  it was in: \<open>Startup 0\<close> if it was loading initially, \<open>Normal\<close> otherwise, in both
  cases with one reconciliation started at once.
\<close>

theorem triggerRefresh_restarts_current_phase:
  "isAuthenticated s \<Longrightarrow>
     intervalRef (triggerRefresh s) = None
     \<and> refreshKey (onTriggerRefresh s) = refreshKey s + 1
     \<and> attemptsRef (onTriggerRefresh s) = 0
     \<and> fetchAttempts (onTriggerRefresh s) = 0
     \<and> isInitialLoading (onTriggerRefresh s) = isInitialLoading s
     \<and> phaseOf (onTriggerRefresh s) = (if isInitialLoading s then Startup 0 else Normal)
     \<and> issued (onTriggerRefresh s) =
         issued s @
           [\<lparr> callback = (if isInitialLoading s then FetchInitialData else FetchServers),
              generation = refreshKey s + 1,
              reqPage = currentPage s, reqLimit = serversPerPage s \<rparr>]"
  by (simp add: ctl_defs)

theorem triggerRefresh_restarts_current_phase_witness:
  "isAuthenticated normalState
   \<and> intervalRef (triggerRefresh normalState) = None
   \<and> refreshKey (onTriggerRefresh normalState) = 2
   \<and> attemptsRef (onTriggerRefresh normalState) = 0
   \<and> fetchAttempts (onTriggerRefresh normalState) = 0
   \<and> phaseOf (onTriggerRefresh normalState) = Normal"
  using triggerRefresh_restarts_current_phase [of normalState]
  by (simp add: normalState_eq)

subsection \<open>Responses of a superseded generation\<close>

text \<open>
  C3, as the claim states it, fails: the boot request was started under generation 1;
  after \<open>triggerRefresh\<close> the generation is 2, and when the boot request then resolves
  its list is written to \<open>servers\<close> all the same.
\<close>

theorem stale_response_counterexample:
  "bootRequest \<in> set (issued bootState)
   \<and> generation bootRequest \<noteq> refreshKey (onTriggerRefresh bootState)
   \<and> servers (onTriggerRefresh bootState) = []
   \<and> servers (onSettle bootRequest True 1000 PaginatedFirst
                (Inr (Envelope True (Some [''alpha'']) None))
                (Inr (Envelope True (Some [''alpha'']) None))
                (onTriggerRefresh bootState)) = [''alpha'']"
  by (simp add: bootState_eq) (simp add: bootRequest_def ctl_defs)

text \<open>
  C3, amended. The provider keeps no generation with a request: a reconciliation whose
  generation no longer matches \<open>refreshKey\<close> settles exactly as one of the current
  generation, and when both its requests resolve with success envelopes their contents
  are written to \<open>servers\<close>, \<open>pagination\<close> and \<open>allServers\<close>.
\<close>

theorem stale_response_is_applied:
  "generation req \<noteq> refreshKey s \<Longrightarrow>
     onSettle req online now ord r1 r2 s
       = onSettle (req\<lparr>generation := refreshKey s\<rparr>) online now ord r1 r2 s
     \<and> servers (onSettle req online now ord (Inr (Envelope True (Some xs) pg))
                  (Inr (Envelope True (Some ys) pg')) s) = xs
     \<and> pagination (onSettle req online now ord (Inr (Envelope True (Some xs) pg))
                  (Inr (Envelope True (Some ys) pg')) s) = pg
     \<and> allServers (onSettle req online now ord (Inr (Envelope True (Some xs) pg))
                  (Inr (Envelope True (Some ys) pg')) s) = ys"
  by (cases "callback req")
     (simp_all add: onSettle_def sink_commit fetchInitialData_settle_def
        fetchServers_settle_def startNormalPolling_def issue_def clearTimer_def Let_def)

theorem stale_response_is_applied_witness:
  "generation bootRequest \<noteq> refreshKey (onTriggerRefresh bootState)
   \<and> servers (onSettle bootRequest True 1000 PaginatedFirst
                (Inr (Envelope True (Some [''alpha'']) None))
                (Inr (Envelope True (Some [''alpha'', ''beta'']) None))
                (onTriggerRefresh bootState)) = [''alpha'']
   \<and> allServers (onSettle bootRequest True 1000 PaginatedFirst
                (Inr (Envelope True (Some [''alpha'']) None))
                (Inr (Envelope True (Some [''alpha'', ''beta'']) None))
                (onTriggerRefresh bootState)) = [''alpha'', ''beta'']"
  using stale_response_is_applied [of bootRequest "onTriggerRefresh bootState" True 1000
      PaginatedFirst "Inl fetchFailed" "Inl fetchFailed" "[''alpha'']" None "[''alpha'', ''beta'']" None]
  by (simp add: bootState_eq bootRequest_def onTriggerRefresh_def triggerRefresh_def
       commit_def pollingDeps_def pollingEffect_def clearTimer_def issue_def Let_def)

subsection \<open>The first reconciliation of each phase\<close>




subsection \<open>Signing out\<close>

text \<open>
  C5. When the session signal turns off in \<open>normalState\<close>, the timer is cancelled and
  \<open>servers\<close>, \<open>allServers\<close> and \<open>error\<close> are cleared, but \<open>pagination\<close> still holds
  the page information of the last response. And when it turns off in \<open>bootState\<close>,
  where a startup reconciliation is in flight, the timer is cancelled, but the response
  that arrives afterwards writes \<open>servers\<close> and arms the normal timer, whose next
  tick starts a reconciliation.
\<close>

theorem logout_keeps_pagination:
  "pagination normalState = Some samplePagination
   \<and> pagination (onAuthChange False normalState) = Some samplePagination
   \<and> servers (onAuthChange False normalState) = []
   \<and> allServers (onAuthChange False normalState) = []
   \<and> error (onAuthChange False normalState) = None
   \<and> intervalRef (onAuthChange False normalState) = None
   \<and> intervalRef (onAuthChange False bootState) = None
   \<and> intervalRef (onSettle bootRequest True 1000 PaginatedFirst
        (Inr (BareArray [''alpha''])) (Inr (BareArray [''alpha'']))
        (onAuthChange False bootState))
       = Some \<lparr> handler = FetchServers, period = 10000 \<rparr>
   \<and> servers (onSettle bootRequest True 1000 PaginatedFirst
        (Inr (BareArray [''alpha''])) (Inr (BareArray [''alpha'']))
        (onAuthChange False bootState)) = [''alpha'']
   \<and> length (issued (onTick (onSettle bootRequest True 1000 PaginatedFirst
        (Inr (BareArray [''alpha''])) (Inr (BareArray [''alpha'']))
        (onAuthChange False bootState))))
       = length (issued (onAuthChange False bootState)) + 1"
  by (simp add: normalState_eq bootState_eq) (simp add: bootRequest_def onTick_def ctl_defs)

subsection \<open>Debounced refresh\<close>

text \<open>
  C6, as the claim states it, fails. The last fetch resolved at time 1000. A call at
  10000 triggers a refresh; a second call one millisecond later, before that refresh
  has resolved, triggers another one: two reconciliations, not one. And two calls that
  both fall within 3000 ms of the last fetch start none at all.
\<close>

theorem refreshIfNeeded_twice_counterexample:
  "lastFetchTimeRef normalState = 1000
   \<and> refreshKey (onRefreshIfNeeded ''production'' 10001
        (onRefreshIfNeeded ''production'' 10000 normalState)) = refreshKey normalState + 2
   \<and> length (issued (onRefreshIfNeeded ''production'' 10001
        (onRefreshIfNeeded ''production'' 10000 normalState)))
       = length (issued normalState) + 2
   \<and> length (issued (onRefreshIfNeeded ''production'' 1501
        (onRefreshIfNeeded ''production'' 1500 normalState)))
       = length (issued normalState)"
  by (simp add: normalState_eq) (simp add: ctl_defs)

text \<open>
  C6, amended. \<open>refreshIfNeeded\<close> calls \<open>triggerRefresh\<close> if and only if
  \<open>now - lastFetchTimeRef\<close> is at least \<open>MIN_REFRESH_INTERVAL\<close> (5000 ms when
  \<^verbatim>\<open>NODE_ENV\<close> is \<^verbatim>\<open>development\<close>, 3000 ms otherwise), and is a no-op otherwise.
  \<open>lastFetchTimeRef\<close> moves only when a reconciliation resolves: a call made less than
  the interval after a reconciliation resolved is a no-op, while two calls with no
  resolved reconciliation in between, the first of which triggers, both trigger.
\<close>

theorem refreshIfNeeded_debounce:
  "(refreshKey (refreshIfNeeded nodeEnv now s) = refreshKey s + 1
      \<longleftrightarrow> MIN_REFRESH_INTERVAL nodeEnv \<le> now - lastFetchTimeRef s)
   \<and> (MIN_REFRESH_INTERVAL nodeEnv \<le> now - lastFetchTimeRef s \<longrightarrow>
        onRefreshIfNeeded nodeEnv now s = onTriggerRefresh s)
   \<and> (now - lastFetchTimeRef s < MIN_REFRESH_INTERVAL nodeEnv \<longrightarrow>
        onRefreshIfNeeded nodeEnv now s = s)
   \<and> MIN_REFRESH_INTERVAL nodeEnv = (if nodeEnv = ''development'' then 5000 else 3000)
   \<and> (now - t < MIN_REFRESH_INTERVAL nodeEnv \<longrightarrow>
        onRefreshIfNeeded nodeEnv now (onSettle req online t ord (Inr p) (Inr a) s)
          = onSettle req online t ord (Inr p) (Inr a) s)
   \<and> (MIN_REFRESH_INTERVAL nodeEnv \<le> now - lastFetchTimeRef s \<and> now \<le> now' \<longrightarrow>
        refreshKey (onRefreshIfNeeded nodeEnv now' (onRefreshIfNeeded nodeEnv now s))
          = refreshKey s + 2)"
proof -
  have k: "refreshKey (refreshIfNeeded nodeEnv now s) = refreshKey s + 1
      \<longleftrightarrow> MIN_REFRESH_INTERVAL nodeEnv \<le> now - lastFetchTimeRef s"
    by (simp add: refreshIfNeeded_def triggerRefresh_def clearTimer_def Let_def)
  have trig: "MIN_REFRESH_INTERVAL nodeEnv \<le> now - lastFetchTimeRef s \<longrightarrow>
        onRefreshIfNeeded nodeEnv now s = onTriggerRefresh s"
    by (simp add: onRefreshIfNeeded_def onTriggerRefresh_def refreshIfNeeded_def)
  have noop: "now - lastFetchTimeRef s < MIN_REFRESH_INTERVAL nodeEnv \<longrightarrow>
        onRefreshIfNeeded nodeEnv now s = s"
    by (simp add: refreshIfNeeded_noop)
  have settled: "now - t < MIN_REFRESH_INTERVAL nodeEnv \<longrightarrow>
        onRefreshIfNeeded nodeEnv now (onSettle req online t ord (Inr p) (Inr a) s)
          = onSettle req online t ord (Inr p) (Inr a) s"
    by (simp add: refreshIfNeeded_noop lastFetch_onSettle_resolved)
  have twice: "MIN_REFRESH_INTERVAL nodeEnv \<le> now - lastFetchTimeRef s \<and> now \<le> now' \<longrightarrow>
        refreshKey (onRefreshIfNeeded nodeEnv now' (onRefreshIfNeeded nodeEnv now s))
          = refreshKey s + 2"
    by (simp add: onRefreshIfNeeded_def refreshKey_commit sink_commit refreshIfNeeded_def
          triggerRefresh_frame)
  show ?thesis
    using k trig noop settled twice by (simp add: MIN_REFRESH_INTERVAL_def)
qed

theorem refreshIfNeeded_debounce_witness:
  "MIN_REFRESH_INTERVAL ''production'' \<le> 10000 - lastFetchTimeRef normalState
   \<and> refreshKey (refreshIfNeeded ''production'' 10000 normalState) = refreshKey normalState + 1
   \<and> onRefreshIfNeeded ''production'' 10000 normalState = onTriggerRefresh normalState
   \<and> refreshKey (onRefreshIfNeeded ''production'' 10001
          (onRefreshIfNeeded ''production'' 10000 normalState)) = refreshKey normalState + 2
   \<and> 3999 - lastFetchTimeRef normalState < MIN_REFRESH_INTERVAL ''production''
   \<and> onRefreshIfNeeded ''production'' 3999 normalState = normalState
   \<and> onRefreshIfNeeded ''production'' 3999
        (onSettle bootRequest True 1000 PaginatedFirst (Inr (BareArray []))
           (Inr (BareArray [])) normalState)
       = onSettle bootRequest True 1000 PaginatedFirst (Inr (BareArray []))
           (Inr (BareArray [])) normalState"
proof -
  have a: "MIN_REFRESH_INTERVAL ''production'' \<le> 10000 - lastFetchTimeRef normalState"
    by (simp add: normalState_eq MIN_REFRESH_INTERVAL_def)
  have b: "3999 - lastFetchTimeRef normalState < MIN_REFRESH_INTERVAL ''production''"
    by (simp add: normalState_eq MIN_REFRESH_INTERVAL_def)
  have c: "(3999::int) - 1000 < MIN_REFRESH_INTERVAL ''production''"
    by (simp add: MIN_REFRESH_INTERVAL_def)
  have d: "(10000::int) \<le> 10001" by simp
  show ?thesis
    using a b c d
      refreshIfNeeded_debounce [of "''production''" 10000 normalState 1000 bootRequest True
                 PaginatedFirst "BareArray []" "BareArray []" 10001]
      refreshIfNeeded_debounce [of "''production''" 3999 normalState 1000 bootRequest True
                 PaginatedFirst "BareArray []" "BareArray []" 3999]
    by blast
qed

subsection \<open>The time of the last fetch\<close>

text \<open>
  C7, as the claim states it, fails: a reconciliation whose responses have an invalid
  shape still records the time (777 here) in \<open>lastFetchTimeRef\<close>.
\<close>

theorem invalid_shape_records_time_counterexample:
  "lastFetchTimeRef bootState = 0
   \<and> lastFetchTimeRef (onSettle bootRequest True 777 PaginatedFirst
        (Inr (Envelope False None None)) (Inr Falsy) bootState) = 777"
  by (simp add: bootState_eq) (simp add: bootRequest_def ctl_defs)

text \<open>
  C7, amended. \<open>lastFetchTimeRef\<close> is set to the current time exactly when both
  requests of a reconciliation resolve, whatever the shape of the responses; when one of
  them is rejected it is left unchanged.
\<close>

theorem lastFetchTime_recorded_when_resolved:
  "lastFetchTimeRef (onSettle req online now ord r1 r2 s) =
     (case promiseAll ord r1 r2 of Inr _ \<Rightarrow> now | Inl _ \<Rightarrow> lastFetchTimeRef s)"
  by (cases "callback req"; cases r1; cases r2; cases ord)
     (simp_all add: onSettle_def sink_commit fetchInitialData_settle_def
        fetchServers_settle_def startNormalPolling_def issue_def clearTimer_def Let_def frame)

subsection \<open>Responses of an invalid shape\<close>




subsection \<open>Error messages\<close>

text \<open>
  C9, as the claim states it, fails. In the startup phase, online, a \<^verbatim>\<open>TypeError\<close>
  with the message \<^verbatim>\<open>Failed to fetch\<close> yields the startup message, not the
  unreachable-backend message. And in the normal phase, the startup reconciliation that
  was started on mounting and is still in flight fails with the startup message too, not
  with the message of the normal phase.
\<close>

theorem startup_transport_error_counterexample:
  "phaseOf bootState = Startup 0
   \<and> error (onSettle bootRequest True 0 PaginatedFirst (Inl fetchFailed) (Inl fetchFailed)
              bootState)
     = Some ''errors.initialStartup''
   \<and> error (onSettle bootRequest True 0 PaginatedFirst (Inl fetchFailed) (Inl fetchFailed)
              bootState)
     \<noteq> Some ''errors.serverConnection''
   \<and> phaseOf normalState = Normal
   \<and> firstRequest \<in> set (issued normalState)
   \<and> error (onSettle firstRequest True 2000 PaginatedFirst (Inl boom) (Inl boom) normalState)
     = Some ''errors.initialStartup''
   \<and> error (onSettle firstRequest True 2000 PaginatedFirst (Inl boom) (Inl boom) normalState)
     \<noteq> Some ''errors.serverFetch''"
  by (simp add: bootState_eq normalState_eq)
     (simp add: bootRequest_def firstRequest_def fetchFailed_def boom_def ctl_defs)

text \<open>
  C9, amended. A failed reconciliation is classified by the function that started it,
  whatever the phase when it fails, on the error \<^verbatim>\<open>Promise.all\<close> reports (that of
  the request rejected first). One started by \<^verbatim>\<open>fetchServers\<close> (normal polling) is
  classified in priority order: offline gives \<^verbatim>\<open>errors.network\<close>; a
  \<^verbatim>\<open>TypeError\<close> whose message contains \<^verbatim>\<open>NetworkError\<close> or \<^verbatim>\<open>Failed to fetch\<close>
  gives \<^verbatim>\<open>errors.serverConnection\<close>; anything else gives \<^verbatim>\<open>errors.serverFetch\<close>. One
  started by \<^verbatim>\<open>fetchInitialData\<close> (startup polling) has two classes only: offline
  gives \<^verbatim>\<open>errors.network\<close>, anything else (transport errors included) gives
  \<^verbatim>\<open>errors.initialStartup\<close>. When both requests are rejected, the error classified is
  the paginated request's if it was rejected first and the full request's otherwise.
\<close>

theorem error_classification:
  "(promiseAll ord r1 r2 = Inl e \<longrightarrow>
     error (onSettle req online now ord r1 r2 s) =
       Some (case callback req of
               FetchServers \<Rightarrow>
                 if \<not> online then ''errors.network''
                 else if isTypeError e \<and> (str_includes (message e) ''NetworkError''
                                          \<or> str_includes (message e) ''Failed to fetch'')
                 then ''errors.serverConnection''
                 else ''errors.serverFetch''
             | FetchInitialData \<Rightarrow>
                 if \<not> online then ''errors.network'' else ''errors.initialStartup''))
   \<and> promiseAll ord (Inl e1) (Inr b) = Inl e1
   \<and> promiseAll ord (Inr a) (Inl e2) = Inl e2
   \<and> promiseAll PaginatedFirst (Inl e1) (Inl e2 :: jserror + 'b) = (Inl e1 :: jserror + 'a \<times> 'b)
   \<and> promiseAll FullFirst (Inl e1 :: jserror + 'a) (Inl e2) = (Inl e2 :: jserror + 'a \<times> 'b)"
  by (cases "callback req")
     (auto simp add: onSettle_def sink_commit fetchInitialData_settle_def
        fetchServers_settle_def startNormalPolling_def issue_def clearTimer_def Let_def)

theorem error_classification_witness:
  "promiseAll FullFirst (Inl boom) (Inl fetchFailed :: jserror + string response)
     = (Inl fetchFailed :: jserror + string response \<times> string response)
   \<and> error (onSettle (bootRequest\<lparr>callback := FetchServers\<rparr>) True 0 FullFirst
               (Inl boom) (Inl fetchFailed) normalState)
       = Some ''errors.serverConnection''
   \<and> error (onSettle (bootRequest\<lparr>callback := FetchServers\<rparr>) True 0 PaginatedFirst
               (Inl boom) (Inl fetchFailed) normalState)
       = Some ''errors.serverFetch''
   \<and> error (onSettle bootRequest True 0 PaginatedFirst (Inr (BareArray [''alpha'']))
               (Inl fetchFailed) bootState)
       = Some ''errors.initialStartup''
   \<and> error (onSettle firstRequest False 0 FullFirst (Inl boom) (Inl fetchFailed) normalState)
       = Some ''errors.network''"
proof -
  have h1: "promiseAll FullFirst (Inl boom) (Inl fetchFailed :: jserror + string response)
             = (Inl fetchFailed :: jserror + string response \<times> string response)"
    by simp
  have h2: "promiseAll PaginatedFirst (Inl boom) (Inl fetchFailed :: jserror + string response)
             = (Inl boom :: jserror + string response \<times> string response)"
    by simp
  have h3: "promiseAll PaginatedFirst (Inr (BareArray [''alpha'']))
             (Inl fetchFailed :: jserror + string response)
             = (Inl fetchFailed :: jserror + string response \<times> string response)"
    by simp
  show ?thesis
    using h1 h2 h3
      error_classification [of FullFirst "Inl boom" "Inl fetchFailed" fetchFailed
         "bootRequest\<lparr>callback := FetchServers\<rparr>" True 0 normalState]
      error_classification [of PaginatedFirst "Inl boom" "Inl fetchFailed" boom
         "bootRequest\<lparr>callback := FetchServers\<rparr>" True 0 normalState]
      error_classification [of PaginatedFirst "Inr (BareArray [''alpha''])" "Inl fetchFailed"
         fetchFailed bootRequest True 0 bootState]
      error_classification [of FullFirst "Inl boom" "Inl fetchFailed" fetchFailed
         firstRequest False 0 normalState]
    by (simp add: bootRequest_def firstRequest_def fetchFailed_def boom_def)
qed

end
